theory Spec2Isabelle
  imports Main "HOL-Library.Char_ord" "HOL-Library.List_Lexorder"
begin

section \<open>Values and exceptions\<close>

text \<open>
  A Python dictionary from strings to strings is an association list in insertion order;
  \<open>d["k"]\<close> is \<open>map_of d ''k''\<close>, and a missing key is the exception \<open>KeyError\<close>.
  The values handed to \<open>lkml.dump\<close> are strings, lists and dictionaries.
\<close>

type_synonym dict = "(string \<times> string) list"

datatype lkval = Str string | Lst "lkval list" | Dict "(string \<times> lkval) list"

definition dict_val :: "dict \<Rightarrow> lkval" where
  "dict_val d = Dict (map (\<lambda>kv. (fst kv, Str (snd kv))) d)"

text \<open>
  Modelled from the spec: the enumeration \<open>Errors\<close> of \<open>generator.dryrun\<close> is not among the
  sources. The pipeline names only its member \<open>PERMISSION_DENIED\<close>; the spec lists the failure
  kinds as permission denied, malformed reference and generic backend error.
\<close>

datatype errors = PERMISSION_DENIED | MALFORMED_REFERENCE | BACKEND_ERROR

text \<open>
  The exceptions of the generator: \<open>DryRunError\<close> with its fields \<open>error\<close> and
  \<open>use_cloud_function\<close>, the \<open>KeyError\<close> of a dictionary lookup with the missing key, and
  a plain \<open>Exception\<close> with its message. All of them are subclasses of \<open>Exception\<close>.
\<close>

datatype exn =
    DryRunError (error: errors) (use_cloud_function: bool)
  | KeyError string
  | Exception string

section \<open>textwrap.dedent\<close>

text \<open>
  The standard library's \<open>dedent\<close>, as CPython 3.11 defines it: lines made of spaces and
  tabs only become empty, the margin is the longest run of leading spaces and tabs common
  to all other lines, and the margin is removed from the start of every line.
\<close>

fun split_nl :: "string \<Rightarrow> string list" where
  "split_nl [] = [[]]"
| "split_nl (c # cs) =
     (if c = CHR 0x0A then [] # split_nl cs
      else (case split_nl cs of [] \<Rightarrow> [[c]] | l # ls \<Rightarrow> (c # l) # ls))"

fun join_nl :: "string list \<Rightarrow> string" where
  "join_nl [] = []"
| "join_nl [l] = l"
| "join_nl (l # m # ls) = l @ CHR 0x0A # join_nl (m # ls)"

definition is_blank :: "char \<Rightarrow> bool" where
  "is_blank c = (c = CHR '' '' \<or> c = CHR 0x09)"

fun startswith :: "string \<Rightarrow> string \<Rightarrow> bool" where
  "startswith s [] = True"
| "startswith [] (p # ps) = False"
| "startswith (c # cs) (p # ps) = (c = p \<and> startswith cs ps)"

fun common_prefix :: "string \<Rightarrow> string \<Rightarrow> string" where
  "common_prefix (x # xs) (y # ys) = (if x = y then x # common_prefix xs ys else [])"
| "common_prefix xs ys = []"

definition update_margin :: "string \<Rightarrow> string \<Rightarrow> string" where
  "update_margin margin indent =
     (if startswith indent margin then margin
      else if startswith margin indent then indent
      else common_prefix margin indent)"

definition dedent :: "string \<Rightarrow> string" where
  "dedent text =
     (let lines = map (\<lambda>l. if dropWhile is_blank l = [] then [] else l) (split_nl text);
          indents = map (takeWhile is_blank) (filter (\<lambda>l. l \<noteq> []) lines);
          margin = (case indents of [] \<Rightarrow> [] | i # rest \<Rightarrow> foldl update_margin i rest)
      in join_nl (map (\<lambda>l. if startswith l margin then drop (length margin) l else l) lines))"

section \<open>The histogram view of operational monitoring\<close>

text \<open>
  The base class \<open>View\<close> carries \<open>name\<close>, \<open>namespace\<close> and \<open>view_type\<close>; the histogram view
  adds its table entries, and the dimensions, parameters and percentile labels that
  \<open>to_lookml\<close> reads from \<open>self\<close>. A table entry is a dictionary: the key \<open>table\<close> is read
  with \<open>[]\<close> (a missing key raises), the key \<open>dimensions\<close> with \<open>get\<close> and the default \<open>{}\<close>.
  Each declared dimension has a default and a list of options.
\<close>

record dimension_defn =
  dim_default :: string
  dim_options :: "string list"

record table_defn =
  table :: "string option"
  table_dimensions :: "(string \<times> dimension_defn) list option"

record view =
  name :: string
  namespace :: string
  view_type :: string

record hist_view = view +
  tables :: "table_defn list"
  dimensions :: "dict list"
  parameters :: "lkval list"
  percentile_ci_labels :: "string list"

definition ALLOWED_DIMENSIONS :: "string set" where
  "ALLOWED_DIMENSIONS =
     {''branch'', ''probe'', ''histogram__VALUES__key'', ''histogram__VALUES__value''}"

text \<open>The text of the f-string of \<open>_percentile_measure\<close>, before \<open>dedent\<close>.\<close>

definition percentile_sql_text :: "string \<Rightarrow> string" where
  "percentile_sql_text percentile_ci_label =
     ''\<newline>''
     @ ''                `moz-fx-data-shared-prod`.udf_js.jackknife_percentile_ci(\<newline>''
     @ ''                    {% parameter percentile_conf %},\<newline>''
     @ ''                    STRUCT(\<newline>''
     @ ''                        mozfun.hist.merge(\<newline>''
     @ ''                          ARRAY_AGG(\<newline>''
     @ ''                            ${TABLE}.histogram IGNORE NULLS\<newline>''
     @ ''                          )\<newline>''
     @ ''                        ).values AS values\<newline>''
     @ ''                    )\<newline>''
     @ ''                ).'' @ percentile_ci_label @ ''\<newline>''
     @ ''            ''"

definition percentile_measure :: "string \<Rightarrow> dict" where
  "percentile_measure percentile_ci_label =
     [(''name'', percentile_ci_label),
      (''type'', ''number''),
      (''sql'', dedent (percentile_sql_text percentile_ci_label))]"

text \<open>
  The list comprehension of \<open>to_lookml\<close>: a dimension without the key \<open>name\<close> raises
  \<open>KeyError\<close>; the others are kept when the name is allowed or is a key of the first
  table entry's declared dimensions.
\<close>

definition declared_keys :: "table_defn \<Rightarrow> string list" where
  "declared_keys t = (case table_dimensions t of None \<Rightarrow> [] | Some ds \<Rightarrow> map fst ds)"

fun filter_dimensions :: "table_defn \<Rightarrow> dict list \<Rightarrow> exn + dict list" where
  "filter_dimensions t [] = Inr []"
| "filter_dimensions t (d # ds) =
     (case map_of d ''name'' of
        None \<Rightarrow> Inl (KeyError ''name'')
      | Some n \<Rightarrow>
          (case filter_dimensions t ds of
             Inl e \<Rightarrow> Inl e
           | Inr rest \<Rightarrow>
               Inr (if n \<in> ALLOWED_DIMENSIONS \<or> n \<in> set (declared_keys t)
                    then d # rest else rest)))"

text \<open>
  \<open>to_lookml\<close> takes the function \<open>_generate_dimensions\<close> of \<open>lookml_utils\<close> as the parameter
  \<open>generate_dimensions\<close>: it is the schema introspection, and it returns the dimensions of
  the table or raises. The result is the returned dictionary or the exception, the view
  object after the call (its \<open>dimensions\<close> are extended in place), and the tables for which
  the introspection was called, in order. The parameters are those of the source,
  \<open>(self, bq_client, v1_name)\<close>; the pipeline calls \<open>view.to_lookml(v1_name, dryrun)\<close>, so that
  there \<open>bq_client\<close> receives the pipeline's \<open>v1_name\<close>. The dictionary is given as it
  reads when \<open>to_lookml\<close> returns, which is what the pipeline hands to \<open>lkml.dump\<close> right
  after the call; that the dictionary holds the list \<open>self.dimensions\<close> itself, and not a
  copy, is the matter of \<open>to_lookml_in_place\<close> below.
\<close>

definition view_lookml :: "hist_view \<Rightarrow> string \<Rightarrow> lkval" where
  "view_lookml self reference_table =
     Dict [(''views'',
        Lst [Dict [
          (''name'', Str (name self)),
          (''sql_table_name'', Str reference_table),
          (''dimensions'', Lst (map dict_val (dimensions self))),
          (''parameters'', Lst (parameters self)),
          (''measures'',
             Lst (map (\<lambda>label. dict_val (percentile_measure label))
                    (percentile_ci_labels self)))]])]"

definition to_lookml ::
  "('c \<Rightarrow> string \<Rightarrow> exn + dict list) \<Rightarrow> hist_view \<Rightarrow> 'c \<Rightarrow> 'd
     \<Rightarrow> (exn + lkval) \<times> hist_view \<times> string list" where
  "to_lookml generate_dimensions self bq_client v1_name =
     (case tables self of
        [] \<Rightarrow>
          (Inl (Exception (''Operational Monitoring view '' @ name self @ '' has no tables'')),
           self, [])
      | t0 # _ \<Rightarrow>
          (case table t0 of
             None \<Rightarrow> (Inl (KeyError ''table''), self, [])
           | Some reference_table \<Rightarrow>
               (case generate_dimensions bq_client reference_table of
                  Inl e \<Rightarrow> (Inl e, self, [reference_table])
                | Inr all_dimensions \<Rightarrow>
                    (case filter_dimensions t0 all_dimensions of
                       Inl e \<Rightarrow> (Inl e, self, [reference_table])
                     | Inr filtered_dimensions \<Rightarrow>
                         (let self' = self\<lparr>dimensions := dimensions self @ filtered_dimensions\<rparr>
                          in (Inr (view_lookml self' reference_table), self',
                              [reference_table]))))))"

text \<open>
  The same method with the view objects in a store (from the address of an object to the
  object). Line 56 of the source extends the list \<open>self.dimensions\<close> in place, and line 63
  puts that very list, not a copy, into the returned dictionary. A returned dictionary
  is therefore read in a store: its name, table, parameters and measures are fixed when
  the method returns, and its entry \<open>dimensions\<close> is what the list of the object holds in
  the store in which the dictionary is read. (The entry \<open>parameters\<close> is shared in the same
  way, but \<open>to_lookml\<close> never changes that list.)
\<close>

type_synonym store = "nat \<Rightarrow> hist_view"

definition to_lookml_in_place ::
  "('c \<Rightarrow> string \<Rightarrow> exn + dict list) \<Rightarrow> nat \<Rightarrow> 'c \<Rightarrow> 'd \<Rightarrow> store
     \<Rightarrow> (exn + (store \<Rightarrow> lkval)) \<times> store \<times> string list" where
  "to_lookml_in_place generate_dimensions obj bq_client v1_name s =
     (let self = s obj
      in case tables self of
           [] \<Rightarrow>
             (Inl (Exception (''Operational Monitoring view '' @ name self
                     @ '' has no tables'')),
              s, [])
         | t0 # _ \<Rightarrow>
             (case table t0 of
                None \<Rightarrow> (Inl (KeyError ''table''), s, [])
              | Some reference_table \<Rightarrow>
                  (case generate_dimensions bq_client reference_table of
                     Inl e \<Rightarrow> (Inl e, s, [reference_table])
                   | Inr all_dimensions \<Rightarrow>
                       (case filter_dimensions t0 all_dimensions of
                          Inl e \<Rightarrow> (Inl e, s, [reference_table])
                        | Inr filtered_dimensions \<Rightarrow>
                            (Inr (\<lambda>now. view_lookml
                                          (self\<lparr>dimensions := dimensions (now obj)\<rparr>)
                                          reference_table),
                             s(obj := self\<lparr>dimensions :=
                                           dimensions self @ filtered_dimensions\<rparr>),
                             [reference_table])))))"

section \<open>The generation pipeline\<close>

text \<open>
  What the pipeline changes outside of its own variables: the files it writes (path to
  content), the lines it prints, the messages it logs, and the tables for which a schema
  introspection was requested. A path is its text. \<open>path_div\<close> is the operator \<open>/\<close> of
  \<open>pathlib\<close> for a file name that is one relative component (not empty, not \<open>.\<close>, without
  a slash), which is what the name of a view, an explore or a dashboard gives: there
  \<open>pathlib\<close> joins the directory and the name with one slash. For other names \<open>pathlib\<close>
  normalises the result (it drops empty and \<open>.\<close> components and starts again at an absolute
  component); that is not modelled.
\<close>

record world =
  files :: "string \<rightharpoonup> string"
  printed :: "string list"
  logged :: "string list"
  introspected :: "string list"

definition path_div :: "string \<Rightarrow> string \<Rightarrow> string" where
  "path_div dir file = dir @ ''/'' @ file"

definition write_text :: "string \<Rightarrow> string \<Rightarrow> world \<Rightarrow> world" where
  "write_text path content w = w\<lparr>files := (files w)(path \<mapsto> content)\<rparr>"

definition logging_info :: "string \<Rightarrow> world \<Rightarrow> world" where
  "logging_info msg w = w\<lparr>logged := logged w @ [msg]\<rparr>"

definition print :: "string \<Rightarrow> world \<Rightarrow> world" where
  "print line w = w\<lparr>printed := printed w @ [line]\<rparr>"

definition FILE_HEADER :: string where
  "FILE_HEADER =
     ''\<newline>''
     @ ''# *Do not manually modify this file*\<newline>''
     @ ''#\<newline>''
     @ ''# This file has been generated via https://github.com/mozilla/lookml-generator\<newline>''
     @ ''# You can extend this view in the looker-spoke-default project ''
     @ ''(https://github.com/mozilla/looker-spoke-default)\<newline>''
     @ ''\<newline>''"

text \<open>
  The collaborators outside of the repository's sources: \<open>lkml.dump\<close> (it may return
  \<open>None\<close>), \<open>get_file_from_looker_hub\<close> of \<open>generator.utils\<close> (it fetches the file of a path
  into the output directory, or raises), and the text \<open>str\<close> gives for an exception.
\<close>

record externals =
  lkml_dump :: "lkval \<Rightarrow> string option"
  get_file_from_looker_hub :: "string \<Rightarrow> (string \<rightharpoonup> string) \<Rightarrow> exn + (string \<rightharpoonup> string)"
  str_exn :: "exn \<Rightarrow> string"

definition dump_or_empty :: "externals \<Rightarrow> lkval \<Rightarrow> string" where
  "dump_or_empty ext lookml = (case lkml_dump ext lookml of None \<Rightarrow> [] | Some s \<Rightarrow> s)"

text \<open>
  \<open>_generate_views\<close> is a generator that its caller runs to the end. One turn of its loop
  either yields the path of the view, or goes on to the next view without yielding, or
  raises; \<open>generate_view\<close> is that turn. The method \<open>to_lookml\<close> of the views is the
  parameter \<open>view_to_lookml\<close>; it is called as \<open>view.to_lookml(v1_name, dryrun)\<close> and gives
  the result, the view after the call and the tables it introspected.
\<close>

datatype turn = Yielded string world | Skipped world | Raised exn world

definition generate_view ::
  "('v view_scheme \<Rightarrow> string option \<Rightarrow> 'd \<Rightarrow> (exn + lkval) \<times> 'v view_scheme \<times> string list)
     \<Rightarrow> externals \<Rightarrow> string \<Rightarrow> 'v view_scheme \<Rightarrow> string option \<Rightarrow> 'd \<Rightarrow> world \<Rightarrow> turn" where
  "generate_view view_to_lookml ext out_dir view v1_name dryrun w =
     (let w1 = logging_info (''Generating lookml for view '' @ name view @ '' in ''
                   @ namespace view @ '' of type '' @ view_type view) w;
          path = path_div out_dir (name view @ ''.view.lkml'')
      in case view_to_lookml view v1_name dryrun of
           (Inr lookml, view', calls) \<Rightarrow>
             (let w2 = w1\<lparr>introspected := introspected w1 @ calls\<rparr>
              in if lookml = Dict [] then Skipped w2
                 else Yielded path
                        (write_text path (FILE_HEADER @ dump_or_empty ext lookml) w2))
         | (Inl e, view', calls) \<Rightarrow>
             (let w2 = w1\<lparr>introspected := introspected w1 @ calls\<rparr>
              in case e of
                   DryRunError kind cloud \<Rightarrow>
                     if kind = PERMISSION_DENIED \<and> cloud then
                       (let w3 = print (''Permission error dry running '' @ name view'
                                     @ ''. Copy existing '' @ path
                                     @ '' file from looker-hub.'') w2
                        in case get_file_from_looker_hub ext path (files w3) of
                             Inr fs \<Rightarrow> Yielded path (w3\<lparr>files := fs\<rparr>)
                           | Inl ex \<Rightarrow>
                               Skipped (print (''Skip generating view for '' @ path @ '': ''
                                          @ str_exn ext ex) w3))
                     else Raised e w2
                 | _ \<Rightarrow> Raised e w2))"

text \<open>
  The whole generator: the paths it yields in order, the exception that ended it (if
  any), and the world after it.
\<close>

fun generate_views ::
  "('v view_scheme \<Rightarrow> string option \<Rightarrow> 'd \<Rightarrow> (exn + lkval) \<times> 'v view_scheme \<times> string list)
     \<Rightarrow> externals \<Rightarrow> string \<Rightarrow> 'v view_scheme list \<Rightarrow> string option \<Rightarrow> 'd \<Rightarrow> world
     \<Rightarrow> string list \<times> exn option \<times> world" where
  "generate_views view_to_lookml ext out_dir [] v1_name dryrun w = ([], None, w)"
| "generate_views view_to_lookml ext out_dir (view # views) v1_name dryrun w =
     (case generate_view view_to_lookml ext out_dir view v1_name dryrun w of
        Yielded path w' \<Rightarrow>
          (case generate_views view_to_lookml ext out_dir views v1_name dryrun w' of
             (paths, e, w'') \<Rightarrow> (path # paths, e, w''))
      | Skipped w' \<Rightarrow> generate_views view_to_lookml ext out_dir views v1_name dryrun w'
      | Raised e w' \<Rightarrow> ([], Some e, w'))"

text \<open>
  A declarative spec of an artifact is a dictionary; the pipeline itself reads only its
  key \<open>type\<close>, with \<open>[]\<close>. The variant registries \<open>VIEW_TYPES\<close>, \<open>EXPLORE_TYPES\<close> and
  \<open>DASHBOARD_TYPES\<close> are not among the sources: they are parameters, maps from the
  discriminator to the operations of the class.
\<close>

record 'a artifact_defn =
  defn_type :: "string option"
  defn_body :: 'a

fun get_views_from_dict ::
  "(string \<rightharpoonup> (string \<Rightarrow> string \<Rightarrow> 'a artifact_defn \<Rightarrow> exn + 'v))
     \<Rightarrow> (string \<times> 'a artifact_defn) list \<Rightarrow> string \<Rightarrow> exn + 'v list" where
  "get_views_from_dict VIEW_TYPES [] ns = Inr []"
| "get_views_from_dict VIEW_TYPES ((view_name, view_info) # rest) ns =
     (case defn_type view_info of
        None \<Rightarrow> Inl (KeyError ''type'')
      | Some t \<Rightarrow>
          (case VIEW_TYPES t of
             None \<Rightarrow> Inl (KeyError t)
           | Some from_dict \<Rightarrow>
               (case from_dict ns view_name view_info of
                  Inl e \<Rightarrow> Inl e
                | Inr view \<Rightarrow>
                    (case get_views_from_dict VIEW_TYPES rest ns of
                       Inl e \<Rightarrow> Inl e
                     | Inr views \<Rightarrow> Inr (view # views)))))"

text \<open>
  An explore class: \<open>from_dict\<close>, \<open>get_dependent_views\<close> and \<open>to_lookml\<close>. They may read the
  view files already written, and they may raise.
\<close>

record ('a, 'e) explore_class =
  explore_from_dict ::
    "(string \<rightharpoonup> string) \<Rightarrow> string \<Rightarrow> 'a artifact_defn \<Rightarrow> string \<Rightarrow> exn + 'e"
  get_dependent_views :: "(string \<rightharpoonup> string) \<Rightarrow> 'e \<Rightarrow> exn + string list"
  explore_to_lookml :: "(string \<rightharpoonup> string) \<Rightarrow> 'e \<Rightarrow> string option \<Rightarrow> exn + lkval"

definition include_path :: "string \<Rightarrow> string \<Rightarrow> string" where
  "include_path ns view = ''/looker-hub/'' @ ns @ ''/views/'' @ view @ ''.view.lkml''"

definition file_lookml :: "string \<Rightarrow> string list \<Rightarrow> lkval \<Rightarrow> lkval" where
  "file_lookml ns dependent_views explores_lookml =
     Dict [(''includes'', Lst (map (\<lambda>view. Str (include_path ns view)) dependent_views)),
           (''explores'', explores_lookml)]"

definition generate_explore ::
  "(string \<rightharpoonup> ('a, 'e) explore_class) \<Rightarrow> externals \<Rightarrow> string \<Rightarrow> string
     \<Rightarrow> string \<times> 'a artifact_defn \<Rightarrow> string \<Rightarrow> string option \<Rightarrow> world \<Rightarrow> turn" where
  "generate_explore EXPLORE_TYPES ext out_dir ns item views_dir v1_name w =
     (let explore_name = fst item; defn = snd item;
          w1 = logging_info (''Generating lookml for explore '' @ explore_name @ '' in ''
                   @ ns) w
      in case defn_type defn of
           None \<Rightarrow> Raised (KeyError ''type'') w1
         | Some t \<Rightarrow>
             (case EXPLORE_TYPES t of
                None \<Rightarrow> Raised (KeyError t) w1
              | Some cls \<Rightarrow>
                  (case explore_from_dict cls (files w1) explore_name defn views_dir of
                     Inl e \<Rightarrow> Raised e w1
                   | Inr explore \<Rightarrow>
                       (case get_dependent_views cls (files w1) explore of
                          Inl e \<Rightarrow> Raised e w1
                        | Inr dependent_views \<Rightarrow>
                            (case explore_to_lookml cls (files w1) explore v1_name of
                               Inl e \<Rightarrow> Raised e w1
                             | Inr explores_lookml \<Rightarrow>
                                 (let path = path_div out_dir (explore_name @ ''.explore.lkml'')
                                  in Yielded path
                                       (write_text path
                                          (FILE_HEADER @ dump_or_empty ext
                                             (file_lookml ns dependent_views
                                                explores_lookml)) w1)))))))"

fun generate_explores ::
  "(string \<rightharpoonup> ('a, 'e) explore_class) \<Rightarrow> externals \<Rightarrow> string \<Rightarrow> string
     \<Rightarrow> (string \<times> 'a artifact_defn) list \<Rightarrow> string \<Rightarrow> string option \<Rightarrow> world
     \<Rightarrow> string list \<times> exn option \<times> world" where
  "generate_explores EXPLORE_TYPES ext out_dir ns [] views_dir v1_name w = ([], None, w)"
| "generate_explores EXPLORE_TYPES ext out_dir ns (item # explores) views_dir v1_name w =
     (case generate_explore EXPLORE_TYPES ext out_dir ns item views_dir v1_name w of
        Yielded path w' \<Rightarrow>
          (case generate_explores EXPLORE_TYPES ext out_dir ns explores views_dir
                  v1_name w' of
             (paths, e, w'') \<Rightarrow> (path # paths, e, w''))
      | Skipped w' \<Rightarrow>
          generate_explores EXPLORE_TYPES ext out_dir ns explores views_dir v1_name w'
      | Raised e w' \<Rightarrow> ([], Some e, w'))"

text \<open>A dashboard class: \<open>from_dict\<close> and \<open>to_lookml\<close>, which gives the text of the dashboard.\<close>

record ('a, 'b) dashboard_class =
  dashboard_from_dict :: "string \<Rightarrow> string \<Rightarrow> 'a artifact_defn \<Rightarrow> exn + 'b"
  dashboard_to_lookml :: "'b \<Rightarrow> exn + string"

definition generate_dashboard ::
  "(string \<rightharpoonup> ('a, 'b) dashboard_class) \<Rightarrow> string \<Rightarrow> string
     \<Rightarrow> string \<times> 'a artifact_defn \<Rightarrow> world \<Rightarrow> turn" where
  "generate_dashboard DASHBOARD_TYPES dash_dir ns item w =
     (let dashboard_name = fst item; dashboard_info = snd item;
          w1 = logging_info (''Generating lookml for dashboard '' @ dashboard_name @ '' in ''
                   @ ns) w
      in case defn_type dashboard_info of
           None \<Rightarrow> Raised (KeyError ''type'') w1
         | Some t \<Rightarrow>
             (case DASHBOARD_TYPES t of
                None \<Rightarrow> Raised (KeyError t) w1
              | Some cls \<Rightarrow>
                  (case dashboard_from_dict cls ns dashboard_name dashboard_info of
                     Inl e \<Rightarrow> Raised e w1
                   | Inr dashboard \<Rightarrow>
                       (case dashboard_to_lookml cls dashboard of
                          Inl e \<Rightarrow> Raised e w1
                        | Inr dashboard_lookml \<Rightarrow>
                            (let dash_path =
                                   path_div dash_dir (dashboard_name @ ''.dashboard.lookml'')
                             in Yielded dash_path
                                  (write_text dash_path (FILE_HEADER @ dashboard_lookml)
                                     w1))))))"

fun generate_dashboards ::
  "(string \<rightharpoonup> ('a, 'b) dashboard_class) \<Rightarrow> string \<Rightarrow> string
     \<Rightarrow> (string \<times> 'a artifact_defn) list \<Rightarrow> world \<Rightarrow> string list \<times> exn option \<times> world" where
  "generate_dashboards DASHBOARD_TYPES dash_dir ns [] w = ([], None, w)"
| "generate_dashboards DASHBOARD_TYPES dash_dir ns (item # dashboards) w =
     (case generate_dashboard DASHBOARD_TYPES dash_dir ns item w of
        Yielded path w' \<Rightarrow>
          (case generate_dashboards DASHBOARD_TYPES dash_dir ns dashboards w' of
             (paths, e, w'') \<Rightarrow> (path # paths, e, w''))
      | Skipped w' \<Rightarrow> generate_dashboards DASHBOARD_TYPES dash_dir ns dashboards w'
      | Raised e w' \<Rightarrow> ([], Some e, w'))"

section \<open>Dashboard filters of operational monitoring\<close>

text \<open>
  Modelled from the spec: the dashboard builder (\<open>generator.dashboards\<close>) is not among the
  sources; only its test is. The spec (Dashboard Builder, step 7) gives one dashboard-level
  filter per declared dimension: a dimension that is not the grouping dimension has a
  single-valued filter whose default is the declared default option, with a dropdown;
  the grouping dimension's filter is multi-valued, its default is all declared options,
  sorted and joined by commas, with the advanced control, and it is required. The test
  expects \<open>required: true\<close> for the other filters as well.
\<close>

record dashboard_table_defn =
  dashboard_dimensions :: "(string \<times> dimension_defn) list"
  group_by_dimension :: "string option"

record dashboard_filter =
  filter_dimension :: string
  default_value :: string
  allow_multiple_values :: bool
  required :: bool
  ui_config_type :: string

fun join_with :: "string \<Rightarrow> string list \<Rightarrow> string" where
  "join_with sep [] = []"
| "join_with sep [x] = x"
| "join_with sep (x # y # ys) = x @ sep @ join_with sep (y # ys)"

definition dimension_filter ::
  "dashboard_table_defn \<Rightarrow> string \<times> dimension_defn \<Rightarrow> dashboard_filter" where
  "dimension_filter t item =
     (if group_by_dimension t = Some (fst item) then
        \<lparr>filter_dimension = fst item,
         default_value = join_with '','' (sort (dim_options (snd item))),
         allow_multiple_values = True,
         required = True,
         ui_config_type = ''advanced''\<rparr>
      else
        \<lparr>filter_dimension = fst item,
         default_value = dim_default (snd item),
         allow_multiple_values = False,
         required = True,
         ui_config_type = ''dropdown_menu''\<rparr>)"

definition dimension_filters :: "dashboard_table_defn \<Rightarrow> dashboard_filter list" where
  "dimension_filters t = map (dimension_filter t) (dashboard_dimensions t)"

section \<open>Reading a rendered dictionary\<close>

text \<open>\<open>lk_key k v\<close> is \<open>v[k]\<close> on a dictionary, and \<open>rendered_field k out\<close> is \<open>out["views"][0][k]\<close>.\<close>

fun lk_key :: "string \<Rightarrow> lkval \<Rightarrow> lkval option" where
  "lk_key k (Dict kvs) = map_of kvs k"
| "lk_key k (Str s) = None"
| "lk_key k (Lst vs) = None"

definition rendered_field :: "string \<Rightarrow> lkval \<Rightarrow> lkval option" where
  "rendered_field k out =
     (case lk_key ''views'' out of
        Some (Lst (v # rest)) \<Rightarrow> lk_key k v
      | _ \<Rightarrow> None)"

section \<open>Example inputs\<close>

text \<open>
  The view, the table and the dimensions of the repository's test of operational
  monitoring, for a histogram table; two schema stubs, one with allowed and extraneous
  columns and one with extraneous columns only; collaborators that know one cached file.
\<close>

definition fission_table :: table_defn where
  "fission_table =
     \<lparr>table = Some ''moz-fx-data-shared-prod.operational_monitoring.bug_123_test_histogram'',
      table_dimensions =
        Some [(''cores_count'', \<lparr>dim_default = ''4'', dim_options = [''4'', ''1'']\<rparr>),
              (''os'', \<lparr>dim_default = ''Windows'', dim_options = [''Windows'', ''Linux'']\<rparr>)]\<rparr>"

definition fission_histogram :: hist_view where
  "fission_histogram =
     \<lparr>name = ''fission_histogram'',
      namespace = ''operational_monitoring'',
      view_type = ''operational_monitoring_histogram_view'',
      tables = [fission_table],
      dimensions = [[(''name'', ''build_id''), (''type'', ''date'')]],
      parameters = [Dict [(''name'', Str ''percentile_conf''), (''type'', Str ''number'')]],
      percentile_ci_labels = [''percentile_lower'', ''percentile_upper'']\<rparr>"

definition no_tables_view :: hist_view where
  "no_tables_view = fission_histogram\<lparr>name := ''no_tables'', tables := []\<rparr>"

definition stub_dimensions :: "string option \<Rightarrow> string \<Rightarrow> exn + dict list" where
  "stub_dimensions client reference_table =
     Inr [[(''name'', ''client_id''), (''type'', ''string'')],
          [(''name'', ''branch''), (''type'', ''string'')],
          [(''name'', ''os''), (''type'', ''string'')],
          [(''name'', ''probe''), (''type'', ''string'')],
          [(''name'', ''metric''), (''type'', ''string'')]]"

definition stub_extraneous :: "string option \<Rightarrow> string \<Rightarrow> exn + dict list" where
  "stub_extraneous client reference_table =
     Inr [[(''name'', ''client_id''), (''type'', ''string'')],
          [(''name'', ''metric''), (''type'', ''string'')]]"

definition hub_externals :: externals where
  "hub_externals =
     \<lparr>lkml_dump = (\<lambda>lookml. Some ''view: fission {}''),
      get_file_from_looker_hub =
        (\<lambda>path fs. if path = ''views/cached.view.lkml''
                    then Inr (fs(path \<mapsto> ''view: cached {}''))
                    else Inl (Exception ''404'')),
      str_exn = (\<lambda>e. case e of Exception msg \<Rightarrow> msg | KeyError k \<Rightarrow> k
                               | DryRunError kind cloud \<Rightarrow> ''dry run failed'')\<rparr>"

definition empty_world :: world where
  "empty_world = \<lparr>files = Map.empty, printed = [], logged = [], introspected = []\<rparr>"

text \<open>
  A \<open>to_lookml\<close> that answers by the name of the view: an empty dictionary, a permission
  error with or without the cloud function, a backend error, or a small view.
\<close>

definition named_to_lookml ::
  "view \<Rightarrow> string option \<Rightarrow> unit \<Rightarrow> (exn + lkval) \<times> view \<times> string list" where
  "named_to_lookml v v1_name dryrun =
     (if name v = ''empty'' then (Inr (Dict []), v, [])
      else if name v = ''cached'' \<or> name v = ''lost'' then
        (Inl (DryRunError PERMISSION_DENIED True), v, [name v])
      else if name v = ''local'' then
        (Inl (DryRunError PERMISSION_DENIED False), v, [name v])
      else if name v = ''broken'' then
        (Inl (DryRunError BACKEND_ERROR True), v, [name v])
      else (Inr (Dict [(''views'', Lst [Dict [(''name'', Str (name v))]])]), v, [name v]))"

definition named_view :: "string \<Rightarrow> view" where
  "named_view n = \<lparr>name = n, namespace = ''operational_monitoring'', view_type = ''table_view''\<rparr>"

definition base_view_explore :: "(unit, string) explore_class" where
  "base_view_explore =
     \<lparr>explore_from_dict = (\<lambda>fs explore_name defn views_dir. Inr explore_name),
      get_dependent_views = (\<lambda>fs explore. Inr [explore, ''baseline'']),
      explore_to_lookml = (\<lambda>fs explore v1_name. Inr (Lst [Dict [(''name'', Str explore)]]))\<rparr>"

text \<open>Registries with one class each.\<close>

definition example_view_types ::
  "string \<rightharpoonup> (string \<Rightarrow> string \<Rightarrow> unit artifact_defn \<Rightarrow> exn + view)" where
  "example_view_types =
     [''table_view'' \<mapsto>
        (\<lambda>ns view_name view_info.
           Inr \<lparr>name = view_name, namespace = ns, view_type = ''table_view''\<rparr>)]"

definition example_explore_types :: "string \<rightharpoonup> (unit, string) explore_class" where
  "example_explore_types = [''operational_monitoring_explore'' \<mapsto> base_view_explore]"

definition example_dashboard_types :: "string \<rightharpoonup> (unit, string) dashboard_class" where
  "example_dashboard_types =
     [''operational_monitoring_dashboard'' \<mapsto>
        \<lparr>dashboard_from_dict = (\<lambda>ns dashboard_name info. Inr dashboard_name),
         dashboard_to_lookml = (\<lambda>dashboard. Inr (''- dashboard: '' @ dashboard))\<rparr>]"

definition bogus_defn :: "unit artifact_defn" where
  "bogus_defn = \<lparr>defn_type = Some ''bogus'', defn_body = ()\<rparr>"

text \<open>
  A view whose dictionary is not empty but has nothing in it, and collaborators whose
  \<open>lkml.dump\<close> gives \<open>None\<close>; a store in which every address holds the histogram view.
\<close>

definition hollow_to_lookml ::
  "view \<Rightarrow> string option \<Rightarrow> unit \<Rightarrow> (exn + lkval) \<times> view \<times> string list" where
  "hollow_to_lookml v v1_name dryrun = (Inr (Dict [(''views'', Lst [])]), v, [])"

definition silent_externals :: externals where
  "silent_externals = hub_externals\<lparr>lkml_dump := (\<lambda>lookml. None)\<rparr>"

definition fission_store :: store where
  "fission_store = (\<lambda>obj. fission_histogram)"

text \<open>The table of the dashboard test, without and with \<open>group_by_dimension\<close>.\<close>

definition fission_dashboard_table :: dashboard_table_defn where
  "fission_dashboard_table =
     \<lparr>dashboard_dimensions =
        [(''cores_count'', \<lparr>dim_default = ''4'', dim_options = [''4'', ''1'']\<rparr>),
         (''os'', \<lparr>dim_default = ''Windows'', dim_options = [''Windows'', ''Linux'']\<rparr>)],
      group_by_dimension = None\<rparr>"

definition fission_dashboard_table_by_os :: dashboard_table_defn where
  "fission_dashboard_table_by_os = fission_dashboard_table\<lparr>group_by_dimension := Some ''os''\<rparr>"

section \<open>Properties of the histogram view\<close>

lemma filter_dimensions_eq:
  "filter_dimensions t ds = Inr fs \<Longrightarrow>
     fs = filter (\<lambda>d. \<exists>n. map_of d ''name'' = Some n
                     \<and> (n \<in> ALLOWED_DIMENSIONS \<or> n \<in> set (declared_keys t))) ds"
  by (induction ds arbitrary: fs) (auto split: option.splits sum.splits if_splits)

lemma to_lookml_success:
  assumes "to_lookml gen self c d = (Inr out, self', calls)"
  shows "\<exists>t0 rest ref all fd.
           tables self = t0 # rest \<and> table t0 = Some ref \<and> gen c ref = Inr all
           \<and> filter_dimensions t0 all = Inr fd
           \<and> self' = self\<lparr>dimensions := dimensions self @ fd\<rparr>
           \<and> out = view_lookml self' ref \<and> calls = [ref]"
  using assms
  by (auto simp: to_lookml_def Let_def split: list.splits option.splits sum.splits)

lemma rendered_field_dimensions:
  "rendered_field ''dimensions'' (view_lookml self ref) = Some (Lst (map dict_val (dimensions self)))"
  by (simp add: rendered_field_def view_lookml_def)

lemma rendered_field_measures:
  "rendered_field ''measures'' (view_lookml self ref) =
     Some (Lst (map (\<lambda>label. dict_val (percentile_measure label)) (percentile_ci_labels self)))"
  by (simp add: rendered_field_def view_lookml_def)

text \<open>
  C3. A histogram view whose list of tables is empty: \<open>to_lookml\<close> raises, no schema
  introspection has been called, and view generation raises the same exception without
  writing a file for the view or yielding its path.
\<close>

theorem empty_tables_raise:
  assumes "tables view = []"
  shows "to_lookml gen view c d =
           (Inl (Exception (''Operational Monitoring view '' @ name view @ '' has no tables'')),
            view, [])
       \<and> (\<exists>w'. generate_view (to_lookml gen) ext out_dir view v1_name dryrun w =
                  Raised (Exception (''Operational Monitoring view '' @ name view
                                        @ '' has no tables'')) w'
              \<and> files w' = files w \<and> introspected w' = introspected w
              \<and> generate_views (to_lookml gen) ext out_dir (view # views) v1_name dryrun w =
                  ([], Some (Exception (''Operational Monitoring view '' @ name view
                                          @ '' has no tables'')), w'))"
  using assms by (simp add: to_lookml_def generate_view_def Let_def logging_info_def)

theorem empty_tables_raise_witness:
  "tables no_tables_view = []
   \<and> to_lookml stub_dimensions no_tables_view None () =
       (Inl (Exception ''Operational Monitoring view no_tables has no tables''),
        no_tables_view, [])
   \<and> (\<exists>w'. generate_views (to_lookml stub_dimensions) hub_externals ''views''
               [no_tables_view, fission_histogram] None () empty_world =
             ([], Some (Exception ''Operational Monitoring view no_tables has no tables''), w')
          \<and> files w' = Map.empty \<and> introspected w' = [])"
proof -
  have t: "tables no_tables_view = []"
    by (simp add: no_tables_view_def)
  have n: "name no_tables_view = ''no_tables''"
    by (simp add: no_tables_view_def)
  show ?thesis
    using empty_tables_raise [OF t, of stub_dimensions None "()" hub_externals "''views''"
        None "()" empty_world "[fission_histogram]"]
    by (auto simp: n t empty_world_def)
qed

text \<open>
  C4. Whatever the introspected schema is, the dimensions that the rendered histogram
  view has beyond those the object already had are exactly the introspected ones whose
  name is one of the four allowed names or a key of the first table entry's declared
  dimensions, in the order of the schema.
\<close>

theorem histogram_dimensions_allowed:
  assumes "to_lookml gen self c d = (Inr out, self', calls)"
  shows "\<exists>t0 rest ref all fd.
           tables self = t0 # rest \<and> table t0 = Some ref \<and> gen c ref = Inr all
           \<and> rendered_field ''dimensions'' out = Some (Lst (map dict_val (dimensions self @ fd)))
           \<and> fd = filter (\<lambda>dim. \<exists>n. map_of dim ''name'' = Some n
                     \<and> (n \<in> ALLOWED_DIMENSIONS \<or> n \<in> set (declared_keys t0))) all
           \<and> (\<forall>dim \<in> set fd. \<exists>n. map_of dim ''name'' = Some n
                     \<and> n \<in> {''branch'', ''probe'', ''histogram__VALUES__key'',
                            ''histogram__VALUES__value''} \<union> set (declared_keys t0))"
proof -
  from to_lookml_success [OF assms] obtain t0 rest ref all fd where
    h: "tables self = t0 # rest" "table t0 = Some ref" "gen c ref = Inr all"
       "filter_dimensions t0 all = Inr fd"
       "self' = self\<lparr>dimensions := dimensions self @ fd\<rparr>" "out = view_lookml self' ref"
    by blast
  have fd: "fd = filter (\<lambda>dim. \<exists>n. map_of dim ''name'' = Some n
                     \<and> (n \<in> ALLOWED_DIMENSIONS \<or> n \<in> set (declared_keys t0))) all"
    using filter_dimensions_eq [OF h(4)] .
  have r: "rendered_field ''dimensions'' out = Some (Lst (map dict_val (dimensions self @ fd)))"
    by (simp only: h(5,6) rendered_field_dimensions) simp
  have "\<forall>dim \<in> set fd. \<exists>n. map_of dim ''name'' = Some n
                     \<and> n \<in> {''branch'', ''probe'', ''histogram__VALUES__key'',
                            ''histogram__VALUES__value''} \<union> set (declared_keys t0)"
    by (subst fd) (auto simp: ALLOWED_DIMENSIONS_def)
  with h(1-3) r fd show ?thesis by blast
qed

lemma fission_to_lookml:
  "to_lookml stub_dimensions fission_histogram None () =
     (Inr (view_lookml (fission_histogram\<lparr>dimensions :=
              [[(''name'', ''build_id''), (''type'', ''date'')],
               [(''name'', ''branch''), (''type'', ''string'')],
               [(''name'', ''os''), (''type'', ''string'')],
               [(''name'', ''probe''), (''type'', ''string'')]]\<rparr>)
            ''moz-fx-data-shared-prod.operational_monitoring.bug_123_test_histogram''),
      fission_histogram\<lparr>dimensions :=
              [[(''name'', ''build_id''), (''type'', ''date'')],
               [(''name'', ''branch''), (''type'', ''string'')],
               [(''name'', ''os''), (''type'', ''string'')],
               [(''name'', ''probe''), (''type'', ''string'')]]\<rparr>,
      [''moz-fx-data-shared-prod.operational_monitoring.bug_123_test_histogram''])"
  by (simp add: to_lookml_def fission_histogram_def fission_table_def stub_dimensions_def
      declared_keys_def ALLOWED_DIMENSIONS_def Let_def)

theorem histogram_dimensions_allowed_witness:
  "to_lookml stub_dimensions fission_histogram None () =
     (Inr (view_lookml (fission_histogram\<lparr>dimensions :=
              [[(''name'', ''build_id''), (''type'', ''date'')],
               [(''name'', ''branch''), (''type'', ''string'')],
               [(''name'', ''os''), (''type'', ''string'')],
               [(''name'', ''probe''), (''type'', ''string'')]]\<rparr>)
            ''moz-fx-data-shared-prod.operational_monitoring.bug_123_test_histogram''),
      fission_histogram\<lparr>dimensions :=
              [[(''name'', ''build_id''), (''type'', ''date'')],
               [(''name'', ''branch''), (''type'', ''string'')],
               [(''name'', ''os''), (''type'', ''string'')],
               [(''name'', ''probe''), (''type'', ''string'')]]\<rparr>,
      [''moz-fx-data-shared-prod.operational_monitoring.bug_123_test_histogram''])
   \<and> rendered_field ''dimensions''
       (view_lookml (fission_histogram\<lparr>dimensions :=
              [[(''name'', ''build_id''), (''type'', ''date'')],
               [(''name'', ''branch''), (''type'', ''string'')],
               [(''name'', ''os''), (''type'', ''string'')],
               [(''name'', ''probe''), (''type'', ''string'')]]\<rparr>)
            ''moz-fx-data-shared-prod.operational_monitoring.bug_123_test_histogram'') =
         Some (Lst (map dict_val
           [[(''name'', ''build_id''), (''type'', ''date'')],
            [(''name'', ''branch''), (''type'', ''string'')],
            [(''name'', ''os''), (''type'', ''string'')],
            [(''name'', ''probe''), (''type'', ''string'')]]))"
  using histogram_dimensions_allowed [OF fission_to_lookml] fission_to_lookml
  by (auto simp: fission_histogram_def fission_table_def stub_dimensions_def
      declared_keys_def ALLOWED_DIMENSIONS_def)

subsection \<open>The measures and the text of their SQL\<close>

lemma split_nl_line:
  "CHR 0x0A \<notin> set a \<Longrightarrow> split_nl (a @ CHR 0x0A # b) = a # split_nl b"
  by (induction a) auto

lemma percentile_sql_lines:
  assumes "CHR 0x0A \<notin> set label"
  shows "split_nl (percentile_sql_text label) =
     [[],
      ''                `moz-fx-data-shared-prod`.udf_js.jackknife_percentile_ci('',
      ''                    {% parameter percentile_conf %},'',
      ''                    STRUCT('',
      ''                        mozfun.hist.merge('',
      ''                          ARRAY_AGG('',
      ''                            ${TABLE}.histogram IGNORE NULLS'',
      ''                          )'',
      ''                        ).values AS values'',
      ''                    )'',
      ''                ).'' @ label,
      ''            '']"
proof -
  have "split_nl (label @ ''\<newline>            '') = [label, ''            '']"
    using assms by (simp add: split_nl_line)
  then show ?thesis
    by (simp add: percentile_sql_text_def)
qed

lemma dedent_steps:
  assumes "split_nl text = ls"
    and "map (\<lambda>l. if dropWhile is_blank l = [] then [] else l) ls = ls'"
    and "map (takeWhile is_blank) (filter (\<lambda>l. l \<noteq> []) ls') = i # rest"
    and "foldl update_margin i rest = m"
  shows "dedent text = join_nl (map (\<lambda>l. if startswith l m then drop (length m) l else l) ls')"
  by (simp only: dedent_def Let_def assms list.case)

lemma dedent_percentile_sql:
  assumes "CHR 0x0A \<notin> set label"
  shows "dedent (percentile_sql_text label) =
     ''\<newline>''
     @ ''`moz-fx-data-shared-prod`.udf_js.jackknife_percentile_ci(\<newline>''
     @ ''    {% parameter percentile_conf %},\<newline>''
     @ ''    STRUCT(\<newline>''
     @ ''        mozfun.hist.merge(\<newline>''
     @ ''          ARRAY_AGG(\<newline>''
     @ ''            ${TABLE}.histogram IGNORE NULLS\<newline>''
     @ ''          )\<newline>''
     @ ''        ).values AS values\<newline>''
     @ ''    )\<newline>''
     @ '').'' @ label @ ''\<newline>''"
proof -
  have blank: "map (\<lambda>l. if dropWhile is_blank l = [] then [] else l)
     [[],
      ''                `moz-fx-data-shared-prod`.udf_js.jackknife_percentile_ci('',
      ''                    {% parameter percentile_conf %},'',
      ''                    STRUCT('',
      ''                        mozfun.hist.merge('',
      ''                          ARRAY_AGG('',
      ''                            ${TABLE}.histogram IGNORE NULLS'',
      ''                          )'',
      ''                        ).values AS values'',
      ''                    )'',
      ''                ).'' @ label,
      ''            ''] =
     [[],
      ''                `moz-fx-data-shared-prod`.udf_js.jackknife_percentile_ci('',
      ''                    {% parameter percentile_conf %},'',
      ''                    STRUCT('',
      ''                        mozfun.hist.merge('',
      ''                          ARRAY_AGG('',
      ''                            ${TABLE}.histogram IGNORE NULLS'',
      ''                          )'',
      ''                        ).values AS values'',
      ''                    )'',
      ''                ).'' @ label,
      []]"
    by (simp add: is_blank_def)
  have indents: "map (takeWhile is_blank) (filter (\<lambda>l. l \<noteq> [])
     [[],
      ''                `moz-fx-data-shared-prod`.udf_js.jackknife_percentile_ci('',
      ''                    {% parameter percentile_conf %},'',
      ''                    STRUCT('',
      ''                        mozfun.hist.merge('',
      ''                          ARRAY_AGG('',
      ''                            ${TABLE}.histogram IGNORE NULLS'',
      ''                          )'',
      ''                        ).values AS values'',
      ''                    )'',
      ''                ).'' @ label,
      []]) =
     ''                '' #
     [''                    '', ''                    '', ''                        '',
      ''                          '', ''                            '',
      ''                          '', ''                        '', ''                    '',
      ''                '']"
    by (simp add: is_blank_def)
  have margin: "foldl update_margin ''                ''
     [''                    '', ''                    '', ''                        '',
      ''                          '', ''                            '',
      ''                          '', ''                        '', ''                    '',
      ''                ''] = ''                ''"
    by (simp add: update_margin_def)
  show ?thesis
    by (simp only: dedent_steps [OF percentile_sql_lines [OF assms] blank indents margin])
       simp
qed

lemma to_lookml_measures:
  assumes "to_lookml gen self c d = (Inr out, self', calls)"
  shows "rendered_field ''measures'' out =
           Some (Lst (map (\<lambda>label. dict_val (percentile_measure label))
                        (percentile_ci_labels self)))"
proof -
  from to_lookml_success [OF assms] obtain ref fd where
    "self' = self\<lparr>dimensions := dimensions self @ fd\<rparr>" "out = view_lookml self' ref"
    by blast
  then show ?thesis
    by (simp add: rendered_field_measures)
qed

lemma percentile_measure_sql:
  assumes "CHR 0x0A \<notin> set label"
  shows "percentile_measure label =
               [(''name'', label),
                (''type'', ''number''),
                (''sql'', ''\<newline>''
                       @ ''`moz-fx-data-shared-prod`.udf_js.jackknife_percentile_ci(\<newline>''
                       @ ''    {% parameter percentile_conf %},\<newline>''
                       @ ''    STRUCT(\<newline>''
                       @ ''        mozfun.hist.merge(\<newline>''
                       @ ''          ARRAY_AGG(\<newline>''
                       @ ''            ${TABLE}.histogram IGNORE NULLS\<newline>''
                       @ ''          )\<newline>''
                       @ ''        ).values AS values\<newline>''
                       @ ''    )\<newline>''
                       @ '').'' @ label @ ''\<newline>'')]"
  by (simp only: percentile_measure_def dedent_percentile_sql [OF assms])

text \<open>
  C5. The measures of a rendered histogram view do not come from the introspection: they
  are the percentile measures of the declared labels, one per label and in the declared
  order, whatever the schema stub is. The measure of a label has the label as its name,
  the type \<open>number\<close>, and as SQL the text of \<open>jackknife_percentile_ci\<close> over the merged
  histogram, with the parameter \<open>percentile_conf\<close> and the field of the label (the text is
  given for labels without a line break, for which \<open>dedent\<close> removes the sixteen columns
  of the source's indentation).
\<close>

theorem histogram_measures_synthesized:
  assumes "to_lookml gen self c d = (Inr out, self', calls)"
  shows "rendered_field ''measures'' out =
           Some (Lst (map (\<lambda>label. dict_val (percentile_measure label))
                        (percentile_ci_labels self)))
       \<and> (\<forall>gen2 c2 d2 out2 self2 calls2.
             to_lookml gen2 self c2 d2 = (Inr out2, self2, calls2) \<longrightarrow>
             rendered_field ''measures'' out2 = rendered_field ''measures'' out)
       \<and> (\<forall>label. CHR 0x0A \<notin> set label \<longrightarrow>
             percentile_measure label =
               [(''name'', label),
                (''type'', ''number''),
                (''sql'', ''\<newline>''
                       @ ''`moz-fx-data-shared-prod`.udf_js.jackknife_percentile_ci(\<newline>''
                       @ ''    {% parameter percentile_conf %},\<newline>''
                       @ ''    STRUCT(\<newline>''
                       @ ''        mozfun.hist.merge(\<newline>''
                       @ ''          ARRAY_AGG(\<newline>''
                       @ ''            ${TABLE}.histogram IGNORE NULLS\<newline>''
                       @ ''          )\<newline>''
                       @ ''        ).values AS values\<newline>''
                       @ ''    )\<newline>''
                       @ '').'' @ label @ ''\<newline>'')])"
proof (intro conjI allI impI)
  show "rendered_field ''measures'' out =
           Some (Lst (map (\<lambda>label. dict_val (percentile_measure label))
                        (percentile_ci_labels self)))"
    by (rule to_lookml_measures [OF assms])
next
  fix gen2 c2 d2 out2 self2 calls2
  assume "to_lookml gen2 self c2 d2 = (Inr out2, self2, calls2)"
  from to_lookml_measures [OF this] to_lookml_measures [OF assms]
  show "rendered_field ''measures'' out2 = rendered_field ''measures'' out"
    by simp
next
  fix label :: string
  assume "CHR 0x0A \<notin> set label"
  then show "percentile_measure label =
               [(''name'', label),
                (''type'', ''number''),
                (''sql'', ''\<newline>''
                       @ ''`moz-fx-data-shared-prod`.udf_js.jackknife_percentile_ci(\<newline>''
                       @ ''    {% parameter percentile_conf %},\<newline>''
                       @ ''    STRUCT(\<newline>''
                       @ ''        mozfun.hist.merge(\<newline>''
                       @ ''          ARRAY_AGG(\<newline>''
                       @ ''            ${TABLE}.histogram IGNORE NULLS\<newline>''
                       @ ''          )\<newline>''
                       @ ''        ).values AS values\<newline>''
                       @ ''    )\<newline>''
                       @ '').'' @ label @ ''\<newline>'')]"
    by (rule percentile_measure_sql)
qed

theorem histogram_measures_synthesized_witness:
  "rendered_field ''measures''
     (projr (fst (to_lookml stub_dimensions fission_histogram None ()))) =
     Some (Lst
       [Dict [(''name'', Str ''percentile_lower''),
              (''type'', Str ''number''),
              (''sql'', Str (''\<newline>''
                       @ ''`moz-fx-data-shared-prod`.udf_js.jackknife_percentile_ci(\<newline>''
                       @ ''    {% parameter percentile_conf %},\<newline>''
                       @ ''    STRUCT(\<newline>''
                       @ ''        mozfun.hist.merge(\<newline>''
                       @ ''          ARRAY_AGG(\<newline>''
                       @ ''            ${TABLE}.histogram IGNORE NULLS\<newline>''
                       @ ''          )\<newline>''
                       @ ''        ).values AS values\<newline>''
                       @ ''    )\<newline>''
                       @ '').'' @ ''percentile_lower'' @ ''\<newline>''))],
        Dict [(''name'', Str ''percentile_upper''),
              (''type'', Str ''number''),
              (''sql'', Str (''\<newline>''
                       @ ''`moz-fx-data-shared-prod`.udf_js.jackknife_percentile_ci(\<newline>''
                       @ ''    {% parameter percentile_conf %},\<newline>''
                       @ ''    STRUCT(\<newline>''
                       @ ''        mozfun.hist.merge(\<newline>''
                       @ ''          ARRAY_AGG(\<newline>''
                       @ ''            ${TABLE}.histogram IGNORE NULLS\<newline>''
                       @ ''          )\<newline>''
                       @ ''        ).values AS values\<newline>''
                       @ ''    )\<newline>''
                       @ '').'' @ ''percentile_upper'' @ ''\<newline>''))]])"
proof -
  note t = histogram_measures_synthesized [OF fission_to_lookml]
  have labels: "percentile_ci_labels fission_histogram = [''percentile_lower'', ''percentile_upper'']"
    by (simp add: fission_histogram_def)
  have lower: "CHR 0x0A \<notin> set ''percentile_lower''"
    and upper: "CHR 0x0A \<notin> set ''percentile_upper''"
    by simp_all
  note sql = t [THEN conjunct2, THEN conjunct2, rule_format]
  show ?thesis
    by (simp only: fission_to_lookml fst_conv sum.sel t [THEN conjunct1] labels list.map
        sql [OF lower] sql [OF upper] dict_val_def)
       simp
qed

subsection \<open>Calling to_lookml twice\<close>

lemma view_lookml_eq_iff:
  "view_lookml a r = view_lookml b r' \<longleftrightarrow>
     name a = name b \<and> r = r' \<and> dimensions a = dimensions b \<and> parameters a = parameters b
     \<and> map (\<lambda>label. dict_val (percentile_measure label)) (percentile_ci_labels a) =
       map (\<lambda>label. dict_val (percentile_measure label)) (percentile_ci_labels b)"
proof -
  have inj: "inj dict_val"
    by (rule injI) (auto simp: dict_val_def list_eq_iff_nth_eq prod_eq_iff)
  show ?thesis
    by (auto simp: view_lookml_def inj_map_eq_map [OF inj])
qed

lemma to_lookml_in_place_reads:
  assumes "to_lookml gen (s obj) c d = (Inr out, self', calls)"
  shows "\<exists>read. to_lookml_in_place gen obj c d s = (Inr read, s(obj := self'), calls)
           \<and> read (s(obj := self')) = out"
  using assms
  by (auto simp: to_lookml_def to_lookml_in_place_def Let_def
      split: list.splits option.splits sum.splits)

lemma to_lookml_in_place_success:
  assumes "to_lookml_in_place gen obj c d s = (Inr read, s', calls)"
  shows "\<exists>t0 rest ref all fd.
           tables (s obj) = t0 # rest \<and> table t0 = Some ref \<and> gen c ref = Inr all
           \<and> filter_dimensions t0 all = Inr fd
           \<and> s' = s(obj := (s obj)\<lparr>dimensions := dimensions (s obj) @ fd\<rparr>)
           \<and> read = (\<lambda>now. view_lookml ((s obj)\<lparr>dimensions := dimensions (now obj)\<rparr>) ref)
           \<and> calls = [ref]"
  using assms
  by (auto simp: to_lookml_in_place_def Let_def split: list.splits option.splits sum.splits)

text \<open>
  C10 (as amended). When \<open>to_lookml\<close> has succeeded on a view object, a second call on the
  same object with the same stub succeeds too, and the dimensions it renders are the
  object's original ones followed by the allowed introspected dimensions twice. Each
  output read in the store left by its own call (as the pipeline serialises it), the
  second differs from the first exactly when at least one introspected dimension is
  allowed. Both dictionaries hold the one list of the object, so that, read after the
  second call, the first output is equal to the second.
\<close>

theorem second_call_extends_again:
  assumes "to_lookml_in_place gen obj c d s0 = (Inr out1, s1, calls1)"
  shows "\<exists>t0 rest ref all fd out2 s2.
           tables (s0 obj) = t0 # rest \<and> gen c ref = Inr all
         \<and> fd = filter (\<lambda>dim. \<exists>n. map_of dim ''name'' = Some n
                     \<and> (n \<in> ALLOWED_DIMENSIONS \<or> n \<in> set (declared_keys t0))) all
         \<and> to_lookml_in_place gen obj c d s1 = (Inr out2, s2, [ref])
         \<and> rendered_field ''dimensions'' (out1 s1) =
             Some (Lst (map dict_val (dimensions (s0 obj) @ fd)))
         \<and> rendered_field ''dimensions'' (out2 s2) =
             Some (Lst (map dict_val (dimensions (s0 obj) @ fd @ fd)))
         \<and> (out2 s2 \<noteq> out1 s1 \<longleftrightarrow> fd \<noteq> [])
         \<and> out1 s2 = out2 s2"
proof -
  from to_lookml_in_place_success [OF assms] obtain t0 rest ref all fd where
    h: "tables (s0 obj) = t0 # rest" "table t0 = Some ref" "gen c ref = Inr all"
       "filter_dimensions t0 all = Inr fd"
       "s1 = s0(obj := (s0 obj)\<lparr>dimensions := dimensions (s0 obj) @ fd\<rparr>)"
       "out1 = (\<lambda>now. view_lookml ((s0 obj)\<lparr>dimensions := dimensions (now obj)\<rparr>) ref)"
    by blast
  define out2 where
    "out2 = (\<lambda>now :: store. view_lookml ((s1 obj)\<lparr>dimensions := dimensions (now obj)\<rparr>) ref)"
  define s2 where
    "s2 = s1(obj := (s1 obj)\<lparr>dimensions := dimensions (s1 obj) @ fd\<rparr>)"
  have second: "to_lookml_in_place gen obj c d s1 = (Inr out2, s2, [ref])"
    using h(1-4) by (simp add: to_lookml_in_place_def h(5) out2_def s2_def Let_def)
  have fd: "fd = filter (\<lambda>dim. \<exists>n. map_of dim ''name'' = Some n
                     \<and> (n \<in> ALLOWED_DIMENSIONS \<or> n \<in> set (declared_keys t0))) all"
    using filter_dimensions_eq [OF h(4)] .
  have r1: "rendered_field ''dimensions'' (out1 s1) =
      Some (Lst (map dict_val (dimensions (s0 obj) @ fd)))"
    by (simp add: h(5,6) rendered_field_dimensions)
  have r2: "rendered_field ''dimensions'' (out2 s2) =
      Some (Lst (map dict_val (dimensions (s0 obj) @ fd @ fd)))"
    by (simp add: out2_def s2_def h(5) rendered_field_dimensions)
  have differ: "out2 s2 \<noteq> out1 s1 \<longleftrightarrow> fd \<noteq> []"
    by (simp add: out2_def s2_def h(5,6) view_lookml_eq_iff)
  have same: "out1 s2 = out2 s2"
    by (simp add: out2_def s2_def h(5,6))
  from h(1,3) fd second r1 r2 differ same show ?thesis by blast
qed

lemma fission_in_place:
  "to_lookml_in_place stub_dimensions 0 None () fission_store =
     (Inr (\<lambda>now. view_lookml (fission_histogram\<lparr>dimensions := dimensions (now 0)\<rparr>)
             ''moz-fx-data-shared-prod.operational_monitoring.bug_123_test_histogram''),
      fission_store(0 := fission_histogram\<lparr>dimensions :=
              [[(''name'', ''build_id''), (''type'', ''date'')],
               [(''name'', ''branch''), (''type'', ''string'')],
               [(''name'', ''os''), (''type'', ''string'')],
               [(''name'', ''probe''), (''type'', ''string'')]]\<rparr>),
      [''moz-fx-data-shared-prod.operational_monitoring.bug_123_test_histogram''])"
  by (simp add: to_lookml_in_place_def fission_store_def fission_histogram_def
      fission_table_def stub_dimensions_def declared_keys_def ALLOWED_DIMENSIONS_def Let_def)

lemma fission_in_place_again:
  "to_lookml_in_place stub_dimensions 0 None ()
        (fission_store(0 := fission_histogram\<lparr>dimensions :=
              [[(''name'', ''build_id''), (''type'', ''date'')],
               [(''name'', ''branch''), (''type'', ''string'')],
               [(''name'', ''os''), (''type'', ''string'')],
               [(''name'', ''probe''), (''type'', ''string'')]]\<rparr>)) =
     (Inr (\<lambda>now. view_lookml (fission_histogram\<lparr>dimensions := dimensions (now 0)\<rparr>)
             ''moz-fx-data-shared-prod.operational_monitoring.bug_123_test_histogram''),
      (fission_store(0 := fission_histogram\<lparr>dimensions :=
              [[(''name'', ''build_id''), (''type'', ''date'')],
               [(''name'', ''branch''), (''type'', ''string'')],
               [(''name'', ''os''), (''type'', ''string'')],
               [(''name'', ''probe''), (''type'', ''string'')],
               [(''name'', ''branch''), (''type'', ''string'')],
               [(''name'', ''os''), (''type'', ''string'')],
               [(''name'', ''probe''), (''type'', ''string'')]]\<rparr>)),
      [''moz-fx-data-shared-prod.operational_monitoring.bug_123_test_histogram''])"
  by (simp add: to_lookml_in_place_def fission_store_def fission_histogram_def
      fission_table_def stub_dimensions_def declared_keys_def ALLOWED_DIMENSIONS_def Let_def)

theorem second_call_extends_again_witness:
  "fst (snd (to_lookml_in_place stub_dimensions 0 None () fission_store)) =
     (fission_store(0 := fission_histogram\<lparr>dimensions :=
              [[(''name'', ''build_id''), (''type'', ''date'')],
               [(''name'', ''branch''), (''type'', ''string'')],
               [(''name'', ''os''), (''type'', ''string'')],
               [(''name'', ''probe''), (''type'', ''string'')]]\<rparr>))
   \<and> rendered_field ''dimensions''
       (projr (fst (to_lookml_in_place stub_dimensions 0 None () fission_store))
          (fission_store(0 := fission_histogram\<lparr>dimensions :=
              [[(''name'', ''build_id''), (''type'', ''date'')],
               [(''name'', ''branch''), (''type'', ''string'')],
               [(''name'', ''os''), (''type'', ''string'')],
               [(''name'', ''probe''), (''type'', ''string'')]]\<rparr>))) =
       Some (Lst (map dict_val
              [[(''name'', ''build_id''), (''type'', ''date'')],
               [(''name'', ''branch''), (''type'', ''string'')],
               [(''name'', ''os''), (''type'', ''string'')],
               [(''name'', ''probe''), (''type'', ''string'')]]))
   \<and> rendered_field ''dimensions''
       (projr (fst (to_lookml_in_place stub_dimensions 0 None ()
        (fission_store(0 := fission_histogram\<lparr>dimensions :=
              [[(''name'', ''build_id''), (''type'', ''date'')],
               [(''name'', ''branch''), (''type'', ''string'')],
               [(''name'', ''os''), (''type'', ''string'')],
               [(''name'', ''probe''), (''type'', ''string'')]]\<rparr>))))
          (fission_store(0 := fission_histogram\<lparr>dimensions :=
              [[(''name'', ''build_id''), (''type'', ''date'')],
               [(''name'', ''branch''), (''type'', ''string'')],
               [(''name'', ''os''), (''type'', ''string'')],
               [(''name'', ''probe''), (''type'', ''string'')],
               [(''name'', ''branch''), (''type'', ''string'')],
               [(''name'', ''os''), (''type'', ''string'')],
               [(''name'', ''probe''), (''type'', ''string'')]]\<rparr>))) =
       Some (Lst (map dict_val
              [[(''name'', ''build_id''), (''type'', ''date'')],
               [(''name'', ''branch''), (''type'', ''string'')],
               [(''name'', ''os''), (''type'', ''string'')],
               [(''name'', ''probe''), (''type'', ''string'')],
               [(''name'', ''branch''), (''type'', ''string'')],
               [(''name'', ''os''), (''type'', ''string'')],
               [(''name'', ''probe''), (''type'', ''string'')]]))
   \<and> projr (fst (to_lookml_in_place stub_dimensions 0 None () fission_store))
          (fission_store(0 := fission_histogram\<lparr>dimensions :=
              [[(''name'', ''build_id''), (''type'', ''date'')],
               [(''name'', ''branch''), (''type'', ''string'')],
               [(''name'', ''os''), (''type'', ''string'')],
               [(''name'', ''probe''), (''type'', ''string'')],
               [(''name'', ''branch''), (''type'', ''string'')],
               [(''name'', ''os''), (''type'', ''string'')],
               [(''name'', ''probe''), (''type'', ''string'')]]\<rparr>)) =
       projr (fst (to_lookml_in_place stub_dimensions 0 None ()
        (fission_store(0 := fission_histogram\<lparr>dimensions :=
              [[(''name'', ''build_id''), (''type'', ''date'')],
               [(''name'', ''branch''), (''type'', ''string'')],
               [(''name'', ''os''), (''type'', ''string'')],
               [(''name'', ''probe''), (''type'', ''string'')]]\<rparr>))))
          (fission_store(0 := fission_histogram\<lparr>dimensions :=
              [[(''name'', ''build_id''), (''type'', ''date'')],
               [(''name'', ''branch''), (''type'', ''string'')],
               [(''name'', ''os''), (''type'', ''string'')],
               [(''name'', ''probe''), (''type'', ''string'')],
               [(''name'', ''branch''), (''type'', ''string'')],
               [(''name'', ''os''), (''type'', ''string'')],
               [(''name'', ''probe''), (''type'', ''string'')]]\<rparr>))"
  using second_call_extends_again [OF fission_in_place]
  by (simp add: fission_in_place fission_in_place_again rendered_field_dimensions)

text \<open>
  The claim as it was stated fails when no introspected dimension is allowed: the first
  call leaves the object as it was, and the second call gives the same output.
\<close>

theorem second_call_same_output_counterexample:
  "to_lookml stub_extraneous fission_histogram None () =
     (Inr (view_lookml fission_histogram
        ''moz-fx-data-shared-prod.operational_monitoring.bug_123_test_histogram''),
      fission_histogram,
      [''moz-fx-data-shared-prod.operational_monitoring.bug_123_test_histogram''])
   \<and> fst (to_lookml stub_extraneous
        (fst (snd (to_lookml stub_extraneous fission_histogram None ()))) None ()) =
     fst (to_lookml stub_extraneous fission_histogram None ())"
proof -
  have "to_lookml stub_extraneous fission_histogram None () =
     (Inr (view_lookml fission_histogram
        ''moz-fx-data-shared-prod.operational_monitoring.bug_123_test_histogram''),
      fission_histogram,
      [''moz-fx-data-shared-prod.operational_monitoring.bug_123_test_histogram''])"
    by (simp add: to_lookml_def fission_histogram_def fission_table_def stub_extraneous_def
        declared_keys_def ALLOWED_DIMENSIONS_def Let_def)
  then show ?thesis by simp
qed

section \<open>Properties of the generation pipeline\<close>

text \<open>
  C7 (as amended). A view whose \<open>to_lookml\<close> gives the empty dictionary \<open>{}\<close>: its turn of
  the loop writes no file and yields no path, and the generator goes on with the
  remaining views. Every other result is written under the file header and its path is
  yielded, also when there is nothing in it to emit.
\<close>

theorem empty_artifact_skipped:
  assumes "view_to_lookml view v1_name dryrun = (Inr lookml, view', calls)"
  shows "(lookml = Dict [] \<longrightarrow>
            (\<exists>w'. generate_view view_to_lookml ext out_dir view v1_name dryrun w = Skipped w'
               \<and> files w' = files w
               \<and> generate_views view_to_lookml ext out_dir (view # views) v1_name dryrun w =
                   generate_views view_to_lookml ext out_dir views v1_name dryrun w'))
       \<and> (lookml \<noteq> Dict [] \<longrightarrow>
            (\<exists>w'. generate_view view_to_lookml ext out_dir view v1_name dryrun w =
                     Yielded (path_div out_dir (name view @ ''.view.lkml'')) w'
               \<and> files w' = (files w)(path_div out_dir (name view @ ''.view.lkml'') \<mapsto>
                               FILE_HEADER @ dump_or_empty ext lookml)
               \<and> generate_views view_to_lookml ext out_dir (view # views) v1_name dryrun w =
                   (case generate_views view_to_lookml ext out_dir views v1_name dryrun w' of
                      (paths, e, w'') \<Rightarrow>
                        (path_div out_dir (name view @ ''.view.lkml'') # paths, e, w''))))"
  using assms by (simp add: generate_view_def Let_def logging_info_def write_text_def)

theorem empty_artifact_skipped_witness:
  "named_to_lookml (named_view ''empty'') None () = (Inr (Dict []), named_view ''empty'', [])
   \<and> fst (generate_views named_to_lookml hub_externals ''views''
            [named_view ''empty'', named_view ''fission''] None () empty_world) =
       [''views/fission.view.lkml'']
   \<and> files (snd (snd (generate_views named_to_lookml hub_externals ''views''
            [named_view ''empty'', named_view ''fission''] None () empty_world)))
         ''views/empty.view.lkml'' = None
   \<and> files (snd (snd (generate_views named_to_lookml hub_externals ''views''
            [named_view ''empty'', named_view ''fission''] None () empty_world)))
         ''views/fission.view.lkml'' = Some (FILE_HEADER @ ''view: fission {}'')"
proof -
  have h: "named_to_lookml (named_view ''empty'') None () =
             (Inr (Dict []), named_view ''empty'', [])"
    by (simp add: named_to_lookml_def named_view_def)
  have k: "named_to_lookml (named_view ''fission'') None () =
             (Inr (Dict [(''views'', Lst [Dict [(''name'', Str ''fission'')]])]),
              named_view ''fission'', [''fission''])"
    by (simp add: named_to_lookml_def named_view_def)
  show ?thesis
    using empty_artifact_skipped [where view_to_lookml = named_to_lookml
        and view = "named_view ''empty''" and ext = hub_externals and out_dir = "''views''"
        and w = empty_world and views = "[named_view ''fission'']", OF h]
      empty_artifact_skipped [where view_to_lookml = named_to_lookml
        and view = "named_view ''fission''" and ext = hub_externals and out_dir = "''views''"
        and views = "[]", OF k] h
    by (auto simp: generate_view_def named_to_lookml_def named_view_def Let_def path_div_def
        write_text_def logging_info_def empty_world_def dump_or_empty_def hub_externals_def)
qed

text \<open>
  The claim as it was stated fails for an artifact that is empty without being \<open>{}\<close>: the
  dictionary \<open>{"views": []}\<close>, for which \<open>lkml.dump\<close> gives \<open>None\<close>, gets a file that holds the
  header only, and its path is yielded.
\<close>

theorem hollow_artifact_written_counterexample:
  "generate_views hollow_to_lookml silent_externals ''views''
       [named_view ''hollow''] None () empty_world =
     ([''views/hollow.view.lkml''], None,
      \<lparr>files = [''views/hollow.view.lkml'' \<mapsto> FILE_HEADER],
       printed = [],
       logged = [''Generating lookml for view hollow in operational_monitoring ''
                 @ ''of type table_view''],
       introspected = []\<rparr>)"
  by (simp add: generate_view_def hollow_to_lookml_def silent_externals_def named_view_def
      Let_def path_div_def write_text_def logging_info_def empty_world_def dump_or_empty_def
      hub_externals_def)

text \<open>
  C6. A view whose \<open>to_lookml\<close> raises a \<open>DryRunError\<close>. When the error is a permission
  error and the cloud function is in use, the file of the view is fetched from looker-hub:
  if the fetch succeeds the path is yielded and the generator goes on in the world with
  the fetched files; if the fetch raises, the failure is printed, no file is written, the
  path is not yielded, and the generator goes on. Any other \<open>DryRunError\<close> is raised again
  and ends the generator.
\<close>

theorem dry_run_error_fallback:
  assumes "view_to_lookml view v1_name dryrun = (Inl (DryRunError kind cloud), view', calls)"
    and "path = path_div out_dir (name view @ ''.view.lkml'')"
    and "w1 = logging_info (''Generating lookml for view '' @ name view @ '' in ''
                @ namespace view @ '' of type '' @ view_type view) w"
    and "w2 = w1\<lparr>introspected := introspected w1 @ calls\<rparr>"
    and "w3 = print (''Permission error dry running '' @ name view' @ ''. Copy existing ''
                @ path @ '' file from looker-hub.'') w2"
  shows "(kind = PERMISSION_DENIED \<and> cloud \<longrightarrow>
            (\<forall>fs. get_file_from_looker_hub ext path (files w3) = Inr fs \<longrightarrow>
                generate_view view_to_lookml ext out_dir view v1_name dryrun w =
                  Yielded path (w3\<lparr>files := fs\<rparr>)
              \<and> generate_views view_to_lookml ext out_dir (view # views) v1_name dryrun w =
                  (case generate_views view_to_lookml ext out_dir views v1_name dryrun
                          (w3\<lparr>files := fs\<rparr>) of
                     (paths, e, w') \<Rightarrow> (path # paths, e, w')))
          \<and> (\<forall>ex. get_file_from_looker_hub ext path (files w3) = Inl ex \<longrightarrow>
                generate_view view_to_lookml ext out_dir view v1_name dryrun w =
                  Skipped (print (''Skip generating view for '' @ path @ '': ''
                             @ str_exn ext ex) w3)
              \<and> files (print (''Skip generating view for '' @ path @ '': ''
                             @ str_exn ext ex) w3) = files w
              \<and> generate_views view_to_lookml ext out_dir (view # views) v1_name dryrun w =
                  generate_views view_to_lookml ext out_dir views v1_name dryrun
                    (print (''Skip generating view for '' @ path @ '': ''
                       @ str_exn ext ex) w3)))
       \<and> (\<not> (kind = PERMISSION_DENIED \<and> cloud) \<longrightarrow>
              generate_view view_to_lookml ext out_dir view v1_name dryrun w =
                Raised (DryRunError kind cloud) w2
            \<and> generate_views view_to_lookml ext out_dir (view # views) v1_name dryrun w =
                ([], Some (DryRunError kind cloud), w2))"
  using assms by (auto simp: generate_view_def Let_def print_def logging_info_def)

lemma named_cached:
  "named_to_lookml (named_view ''cached'') None () =
     (Inl (DryRunError PERMISSION_DENIED True), named_view ''cached'', [''cached''])"
  by (simp add: named_to_lookml_def named_view_def)

lemma named_lost:
  "named_to_lookml (named_view ''lost'') None () =
     (Inl (DryRunError PERMISSION_DENIED True), named_view ''lost'', [''lost''])"
  by (simp add: named_to_lookml_def named_view_def)

lemma named_local:
  "named_to_lookml (named_view ''local'') None () =
     (Inl (DryRunError PERMISSION_DENIED False), named_view ''local'', [''local''])"
  by (simp add: named_to_lookml_def named_view_def)

theorem dry_run_error_fallback_witness:
  "generate_views named_to_lookml hub_externals ''views''
       [named_view ''cached''] None () empty_world =
     ([''views/cached.view.lkml''], None,
      \<lparr>files = [''views/cached.view.lkml'' \<mapsto> ''view: cached {}''],
       printed = [''Permission error dry running cached. Copy existing ''
                  @ ''views/cached.view.lkml file from looker-hub.''],
       logged = [''Generating lookml for view cached in operational_monitoring ''
                 @ ''of type table_view''],
       introspected = [''cached'']\<rparr>)
   \<and> generate_views named_to_lookml hub_externals ''views''
       [named_view ''lost''] None () empty_world =
     ([], None,
      \<lparr>files = Map.empty,
       printed = [''Permission error dry running lost. Copy existing ''
                  @ ''views/lost.view.lkml file from looker-hub.'',
                  ''Skip generating view for views/lost.view.lkml: 404''],
       logged = [''Generating lookml for view lost in operational_monitoring ''
                 @ ''of type table_view''],
       introspected = [''lost'']\<rparr>)
   \<and> generate_views named_to_lookml hub_externals ''views''
       [named_view ''local'', named_view ''fission''] None () empty_world =
     ([], Some (DryRunError PERMISSION_DENIED False),
      \<lparr>files = Map.empty, printed = [],
       logged = [''Generating lookml for view local in operational_monitoring ''
                 @ ''of type table_view''],
       introspected = [''local'']\<rparr>)"
  using
    dry_run_error_fallback [where view_to_lookml = named_to_lookml
      and view = "named_view ''cached''" and ext = hub_externals and out_dir = "''views''"
      and w = empty_world and views = "[]", OF named_cached refl refl refl refl]
    dry_run_error_fallback [where view_to_lookml = named_to_lookml
      and view = "named_view ''lost''" and ext = hub_externals and out_dir = "''views''"
      and w = empty_world and views = "[]", OF named_lost refl refl refl refl]
    dry_run_error_fallback [where view_to_lookml = named_to_lookml
      and view = "named_view ''local''" and ext = hub_externals and out_dir = "''views''"
      and w = empty_world and views = "[named_view ''fission'']",
      OF named_local refl refl refl refl]
  by (simp add: named_view_def path_div_def print_def logging_info_def empty_world_def
      hub_externals_def)

text \<open>
  C8. An explore that is generated: the file written at its path is the header and the
  dump of a dictionary whose \<open>includes\<close> are the paths
  \<open>/looker-hub/{namespace}/views/{view}.view.lkml\<close> of the views that
  \<open>get_dependent_views\<close> returned, one per returned view and in that order; a view has its
  path among the includes only if it is one of the returned views. The code adds no
  wildcard of its own: a \<open>*\<close> in an include comes from the namespace or from the name of a
  returned view.
\<close>

theorem explore_includes_dependent_views:
  assumes "generate_explore EXPLORE_TYPES ext out_dir ns (explore_name, defn) views_dir
             v1_name w = Yielded path w'"
  shows "\<exists>t cls explore dependent_views explores_lookml w1.
           w1 = logging_info (''Generating lookml for explore '' @ explore_name @ '' in ''
                  @ ns) w
         \<and> defn_type defn = Some t \<and> EXPLORE_TYPES t = Some cls
         \<and> explore_from_dict cls (files w1) explore_name defn views_dir = Inr explore
         \<and> get_dependent_views cls (files w1) explore = Inr dependent_views
         \<and> explore_to_lookml cls (files w1) explore v1_name = Inr explores_lookml
         \<and> path = path_div out_dir (explore_name @ ''.explore.lkml'')
         \<and> files w' path =
             Some (FILE_HEADER @ dump_or_empty ext
                     (file_lookml ns dependent_views explores_lookml))
         \<and> lk_key ''includes'' (file_lookml ns dependent_views explores_lookml) =
             Some (Lst (map (\<lambda>view. Str (''/looker-hub/'' @ ns @ ''/views/'' @ view
                                          @ ''.view.lkml'')) dependent_views))
         \<and> (\<forall>view. Str (''/looker-hub/'' @ ns @ ''/views/'' @ view @ ''.view.lkml'')
                       \<in> set (map (\<lambda>view. Str (''/looker-hub/'' @ ns @ ''/views/'' @ view
                                          @ ''.view.lkml'')) dependent_views)
                     \<longleftrightarrow> view \<in> set dependent_views)
         \<and> (\<forall>view \<in> set dependent_views.
               CHR ''*'' \<in> set (''/looker-hub/'' @ ns @ ''/views/'' @ view @ ''.view.lkml'')
               \<longrightarrow> CHR ''*'' \<in> set ns \<or> CHR ''*'' \<in> set view)"
  using assms
  by (auto simp: generate_explore_def Let_def write_text_def file_lookml_def include_path_def
      split: option.splits sum.splits)

lemma fission_explore_generated:
  "generate_explore example_explore_types hub_externals ''explores'' ''operational_monitoring''
       (''fission'', \<lparr>defn_type = Some ''operational_monitoring_explore'', defn_body = ()\<rparr>)
       ''views'' None empty_world =
     Yielded ''explores/fission.explore.lkml''
       (write_text ''explores/fission.explore.lkml'' (FILE_HEADER @ ''view: fission {}'')
          (logging_info ''Generating lookml for explore fission in operational_monitoring''
             empty_world))"
  by (simp add: generate_explore_def example_explore_types_def base_view_explore_def Let_def
      path_div_def dump_or_empty_def hub_externals_def)

theorem explore_includes_dependent_views_witness:
  "generate_explore example_explore_types hub_externals ''explores'' ''operational_monitoring''
       (''fission'', \<lparr>defn_type = Some ''operational_monitoring_explore'', defn_body = ()\<rparr>)
       ''views'' None empty_world =
     Yielded ''explores/fission.explore.lkml''
       (write_text ''explores/fission.explore.lkml'' (FILE_HEADER @ ''view: fission {}'')
          (logging_info ''Generating lookml for explore fission in operational_monitoring''
             empty_world))
   \<and> lk_key ''includes''
       (file_lookml ''operational_monitoring'' [''fission'', ''baseline'']
          (Lst [Dict [(''name'', Str ''fission'')]])) =
       Some (Lst [Str ''/looker-hub/operational_monitoring/views/fission.view.lkml'',
                  Str ''/looker-hub/operational_monitoring/views/baseline.view.lkml''])"
  using explore_includes_dependent_views [OF fission_explore_generated]
    fission_explore_generated
  by (auto simp: example_explore_types_def base_view_explore_def)

text \<open>An entry with an unregistered type ends the run of its family with an exception.\<close>

lemma get_views_unregistered:
  "(view_name, view_info) \<in> set views \<Longrightarrow> defn_type view_info = Some t \<Longrightarrow>
     VIEW_TYPES t = None \<Longrightarrow> \<exists>e. get_views_from_dict VIEW_TYPES views ns = Inl e"
  by (induction views) (auto split: option.splits sum.splits)

lemma generate_explores_unregistered:
  "(explore_name, defn) \<in> set explores \<Longrightarrow> defn_type defn = Some t \<Longrightarrow>
     EXPLORE_TYPES t = None \<Longrightarrow>
     \<exists>paths e w'. generate_explores EXPLORE_TYPES ext out_dir ns explores views_dir v1_name w =
                     (paths, Some e, w')"
proof (induction explores arbitrary: w)
  case Nil
  then show ?case by simp
next
  case (Cons item explores)
  show ?case
  proof (cases "generate_explore EXPLORE_TYPES ext out_dir ns item views_dir v1_name w")
    case (Yielded path w1)
    have "item \<noteq> (explore_name, defn)"
      using Yielded Cons.prems(2,3) by (auto simp: generate_explore_def Let_def)
    then have "(explore_name, defn) \<in> set explores"
      using Cons.prems(1) by auto
    from Cons.IH [OF this Cons.prems(2,3), of w1] Yielded show ?thesis
      by auto
  next
    case (Skipped w1)
    have "item \<noteq> (explore_name, defn)"
      using Skipped Cons.prems(2,3) by (auto simp: generate_explore_def Let_def)
    then have "(explore_name, defn) \<in> set explores"
      using Cons.prems(1) by auto
    from Cons.IH [OF this Cons.prems(2,3), of w1] Skipped show ?thesis
      by auto
  next
    case (Raised e w1)
    then show ?thesis by simp
  qed
qed

lemma generate_dashboards_unregistered:
  "(dashboard_name, info) \<in> set dashboards \<Longrightarrow> defn_type info = Some t \<Longrightarrow>
     DASHBOARD_TYPES t = None \<Longrightarrow>
     \<exists>paths e w'. generate_dashboards DASHBOARD_TYPES dash_dir ns dashboards w =
                     (paths, Some e, w')"
proof (induction dashboards arbitrary: w)
  case Nil
  then show ?case by simp
next
  case (Cons item dashboards)
  show ?case
  proof (cases "generate_dashboard DASHBOARD_TYPES dash_dir ns item w")
    case (Yielded path w1)
    have "item \<noteq> (dashboard_name, info)"
      using Yielded Cons.prems(2,3) by (auto simp: generate_dashboard_def Let_def)
    then have "(dashboard_name, info) \<in> set dashboards"
      using Cons.prems(1) by auto
    from Cons.IH [OF this Cons.prems(2,3), of w1] Yielded show ?thesis
      by auto
  next
    case (Skipped w1)
    have "item \<noteq> (dashboard_name, info)"
      using Skipped Cons.prems(2,3) by (auto simp: generate_dashboard_def Let_def)
    then have "(dashboard_name, info) \<in> set dashboards"
      using Cons.prems(1) by auto
    from Cons.IH [OF this Cons.prems(2,3), of w1] Skipped show ?thesis
      by auto
  next
    case (Raised e w1)
    then show ?thesis by simp
  qed
qed

text \<open>
  C2 (as amended). An artifact whose type discriminator is not a key of the registry of
  its family: the lookup raises \<open>KeyError\<close> with the discriminator, which ends the
  construction of the views, or the generator of the explores or of the dashboards; the
  exception carries neither the name of the artifact nor its namespace. For explores and
  dashboards the message logged just before the lookup names both.
\<close>

theorem unregistered_type_key_error:
  assumes "defn_type info = Some t"
  shows "(VIEW_TYPES t = None \<longrightarrow>
            get_views_from_dict VIEW_TYPES ((artifact_name, info) # rest) ns = Inl (KeyError t)
          \<and> (\<forall>views. (artifact_name, info) \<in> set views \<longrightarrow>
                (\<exists>e. get_views_from_dict VIEW_TYPES views ns = Inl e)))
       \<and> (EXPLORE_TYPES t = None \<longrightarrow>
            generate_explores EXPLORE_TYPES ext out_dir ns ((artifact_name, info) # rest)
                views_dir v1_name w =
              ([], Some (KeyError t),
               logging_info (''Generating lookml for explore '' @ artifact_name @ '' in ''
                  @ ns) w)
          \<and> (\<forall>explores w0. (artifact_name, info) \<in> set explores \<longrightarrow>
                (\<exists>paths e w'. generate_explores EXPLORE_TYPES ext out_dir ns explores
                                 views_dir v1_name w0 = (paths, Some e, w'))))
       \<and> (DASHBOARD_TYPES t = None \<longrightarrow>
            generate_dashboards DASHBOARD_TYPES dash_dir ns ((artifact_name, info) # rest) w =
              ([], Some (KeyError t),
               logging_info (''Generating lookml for dashboard '' @ artifact_name @ '' in ''
                  @ ns) w)
          \<and> (\<forall>dashboards w0. (artifact_name, info) \<in> set dashboards \<longrightarrow>
                (\<exists>paths e w'. generate_dashboards DASHBOARD_TYPES dash_dir ns dashboards w0 =
                                 (paths, Some e, w'))))"
proof (intro conjI impI allI)
  assume "VIEW_TYPES t = None"
  then show "get_views_from_dict VIEW_TYPES ((artifact_name, info) # rest) ns =
      Inl (KeyError t)"
    using assms by simp
next
  fix views
  assume "VIEW_TYPES t = None" "(artifact_name, info) \<in> set views"
  then show "\<exists>e. get_views_from_dict VIEW_TYPES views ns = Inl e"
    using get_views_unregistered [OF _ assms] by blast
next
  assume "EXPLORE_TYPES t = None"
  then show "generate_explores EXPLORE_TYPES ext out_dir ns ((artifact_name, info) # rest)
                views_dir v1_name w =
              ([], Some (KeyError t),
               logging_info (''Generating lookml for explore '' @ artifact_name @ '' in ''
                  @ ns) w)"
    using assms by (simp add: generate_explore_def Let_def)
next
  fix explores w0
  assume "EXPLORE_TYPES t = None" "(artifact_name, info) \<in> set explores"
  then show "\<exists>paths e w'. generate_explores EXPLORE_TYPES ext out_dir ns explores
                                 views_dir v1_name w0 = (paths, Some e, w')"
    using generate_explores_unregistered [OF _ assms] by blast
next
  assume "DASHBOARD_TYPES t = None"
  then show "generate_dashboards DASHBOARD_TYPES dash_dir ns ((artifact_name, info) # rest) w =
              ([], Some (KeyError t),
               logging_info (''Generating lookml for dashboard '' @ artifact_name @ '' in ''
                  @ ns) w)"
    using assms by (simp add: generate_dashboard_def Let_def)
next
  fix dashboards w0
  assume "DASHBOARD_TYPES t = None" "(artifact_name, info) \<in> set dashboards"
  then show "\<exists>paths e w'. generate_dashboards DASHBOARD_TYPES dash_dir ns dashboards w0 =
                                 (paths, Some e, w')"
    using generate_dashboards_unregistered [OF _ assms] by blast
qed

lemma bogus_type: "defn_type bogus_defn = Some ''bogus''"
  by (simp add: bogus_defn_def)

theorem unregistered_type_key_error_witness:
  "defn_type bogus_defn = Some ''bogus''
   \<and> example_view_types ''bogus'' = None
   \<and> get_views_from_dict example_view_types [(''fission'', bogus_defn)] ''operational_monitoring''
       = Inl (KeyError ''bogus'')
   \<and> example_explore_types ''bogus'' = None
   \<and> generate_explores example_explore_types hub_externals ''explores''
         ''operational_monitoring'' [(''fission'', bogus_defn)] ''views'' None empty_world =
       ([], Some (KeyError ''bogus''),
        logging_info ''Generating lookml for explore fission in operational_monitoring''
          empty_world)
   \<and> example_dashboard_types ''bogus'' = None
   \<and> generate_dashboards example_dashboard_types ''dashboards'' ''operational_monitoring''
         [(''fission'', bogus_defn)] empty_world =
       ([], Some (KeyError ''bogus''),
        logging_info ''Generating lookml for dashboard fission in operational_monitoring''
          empty_world)"
  using unregistered_type_key_error [OF bogus_type, where VIEW_TYPES = example_view_types
      and EXPLORE_TYPES = example_explore_types and DASHBOARD_TYPES = example_dashboard_types
      and artifact_name = "''fission''" and rest = "[]" and ns = "''operational_monitoring''"
      and ext = hub_externals and out_dir = "''explores''" and views_dir = "''views''"
      and ?v1_name = None and w = empty_world and dash_dir = "''dashboards''"]
  by (simp add: bogus_type example_view_types_def example_explore_types_def
      example_dashboard_types_def)

text \<open>
  The claim as it was stated fails: two views with different names, in different
  namespaces, with the same unregistered type raise the very same exception, which names
  neither the view nor the namespace.
\<close>

theorem unregistered_type_counterexample:
  "get_views_from_dict example_view_types [(''view_a'', bogus_defn)] ''namespace_one'' =
     Inl (KeyError ''bogus'')
   \<and> get_views_from_dict example_view_types [(''view_b'', bogus_defn)] ''namespace_two'' =
     Inl (KeyError ''bogus'')"
  by (simp add: bogus_defn_def example_view_types_def)

section \<open>Properties of the dashboard filters\<close>

text \<open>
  C1. The dashboard-level filter of each declared dimension of a table: when the dimension
  is not the grouping dimension (in particular when \<open>group_by_dimension\<close> is unset) it is
  single-valued and its default is the declared default; when it is the grouping
  dimension it is multi-valued, required, with the advanced control, and its default is
  all declared options, sorted and joined by commas.
\<close>

theorem grouping_toggles_filter:
  assumes "i < length (dashboard_dimensions t)"
  shows "filter_dimension (dimension_filters t ! i) = fst (dashboard_dimensions t ! i)
       \<and> (group_by_dimension t \<noteq> Some (fst (dashboard_dimensions t ! i)) \<longrightarrow>
             \<not> allow_multiple_values (dimension_filters t ! i)
           \<and> default_value (dimension_filters t ! i) =
               dim_default (snd (dashboard_dimensions t ! i)))
       \<and> (group_by_dimension t = Some (fst (dashboard_dimensions t ! i)) \<longrightarrow>
             allow_multiple_values (dimension_filters t ! i)
           \<and> required (dimension_filters t ! i)
           \<and> ui_config_type (dimension_filters t ! i) = ''advanced''
           \<and> default_value (dimension_filters t ! i) =
               join_with '','' (sort (dim_options (snd (dashboard_dimensions t ! i)))))"
  using assms by (simp add: dimension_filters_def dimension_filter_def)

theorem grouping_toggles_filter_witness:
  "(1::nat) < length (dashboard_dimensions fission_dashboard_table)
   \<and> \<not> allow_multiple_values (dimension_filters fission_dashboard_table ! 1)
   \<and> default_value (dimension_filters fission_dashboard_table ! 1) = ''Windows''
   \<and> \<not> allow_multiple_values (dimension_filters fission_dashboard_table_by_os ! 0)
   \<and> default_value (dimension_filters fission_dashboard_table_by_os ! 0) = ''4''
   \<and> allow_multiple_values (dimension_filters fission_dashboard_table_by_os ! 1)
   \<and> required (dimension_filters fission_dashboard_table_by_os ! 1)
   \<and> ui_config_type (dimension_filters fission_dashboard_table_by_os ! 1) = ''advanced''
   \<and> default_value (dimension_filters fission_dashboard_table_by_os ! 1) = ''Linux,Windows''"
  using grouping_toggles_filter [of 1 fission_dashboard_table]
    grouping_toggles_filter [of 0 fission_dashboard_table_by_os]
    grouping_toggles_filter [of 1 fission_dashboard_table_by_os]
  by (simp add: fission_dashboard_table_def fission_dashboard_table_by_os_def)

end
